theory Spec2Isabelle
  imports Complex_Main
begin

section \<open>Monte Carlo objectives of probtorch (objectives/montecarlo.py)\<close>

text \<open>
  The module holds four pure functions, \<open>elbo\<close>, \<open>log_like\<close>, \<open>kl\<close> and \<open>ml\<close>. They
  work on two kinds of foreign objects: traces (class \<open>Trace\<close>) and tensors (torch).
  Neither is defined in \<open>montecarlo.py\<close>, so both enter the model as parameters: a trace is
  a record of the four operations the module calls on it, and the tensor library is a
  record of the six tensor operations the module uses. A theorem about a library \<open>L\<close>
  and traces \<open>q\<close> and \<open>p\<close> holds for every tensor library and all traces of these shapes.
\<close>

subsection \<open>Python values and exceptions\<close>

text \<open>
  A value that reaches the arithmetic of the module is an instance of \<open>numbers.Number\<close>
  (a Python float, read here as a real number: rounding is not modelled, and no theorem
  about an arbitrary tensor library below depends on it) or it is a tensor. The test
  \<open>isinstance(v, Number)\<close> tells the two apart.
\<close>

datatype 't pyval = Num real | Ten 't

text \<open>An exception raised inside the trace or the tensor library, by its message.\<close>

type_synonym ext_error = string

text \<open>
  The exceptions that the module itself provokes come from a value that is no tensor where
  the source expects one. \<open>AttributeError Float ''mean''\<close> is what \<open>(0.0).mean()\<close>
  raises: a float has no such method. \<open>NotATensor NoneType ''softmax''\<close> is what
  \<open>softmax(None, 0)\<close> raises: torch rejects the argument, with a \<open>TypeError\<close> or an
  \<open>AttributeError\<close> depending on its version. \<open>Ext\<close> wraps what the trace or the tensor
  library raised on its own.
\<close>

datatype pytype = NoneType | Float

datatype error = AttributeError pytype string | NotATensor pytype string | Ext ext_error

type_synonym 'a result = "error + 'a"

definition and_then :: "'a result \<Rightarrow> ('a \<Rightarrow> 'b result) \<Rightarrow> 'b result" where
  "and_then r f = (case r of Inl e \<Rightarrow> Inl e | Inr v \<Rightarrow> f v)"

text \<open>The outcome of a call into foreign code: its exception propagates unchanged.\<close>

definition foreign :: "ext_error + 'a \<Rightarrow> 'a result" where
  "foreign r = (case r of Inl e \<Rightarrow> Inl (Ext e) | Inr v \<Rightarrow> Inr v)"

definition foreign_ten :: "ext_error + 't \<Rightarrow> 't pyval result" where
  "foreign_ten r = (case r of Inl e \<Rightarrow> Inl (Ext e) | Inr t \<Rightarrow> Inr (Ten t))"

subsection \<open>The tensor library, as a parameter\<close>

text \<open>
  The operations of torch that the module uses. The binary operators receive both
  operands as Python values, since torch itself decides how a float and a tensor combine;
  they are only called when at least one operand is a tensor. \<open>t_sum\<close> and \<open>t_softmax\<close>
  take the dimension as the source passes it.
\<close>

record 't tensor_lib =
  t_add :: "'t pyval \<Rightarrow> 't pyval \<Rightarrow> ext_error + 't"
  t_sub :: "'t pyval \<Rightarrow> 't pyval \<Rightarrow> ext_error + 't"
  t_mul :: "'t pyval \<Rightarrow> 't pyval \<Rightarrow> ext_error + 't"
  t_mean :: "'t \<Rightarrow> ext_error + 't"
  t_sum :: "'t \<Rightarrow> int \<Rightarrow> ext_error + 't"
  t_softmax :: "'t \<Rightarrow> int \<Rightarrow> ext_error + 't"

text \<open>Python's \<open>a + b\<close>, \<open>a - b\<close> and \<open>a * b\<close>: float arithmetic on two floats, torch otherwise.\<close>

fun py_add :: "'t tensor_lib \<Rightarrow> 't pyval \<Rightarrow> 't pyval \<Rightarrow> 't pyval result" where
  "py_add L (Num a) (Num b) = Inr (Num (a + b))"
| "py_add L a b = foreign_ten (t_add L a b)"

fun py_sub :: "'t tensor_lib \<Rightarrow> 't pyval \<Rightarrow> 't pyval \<Rightarrow> 't pyval result" where
  "py_sub L (Num a) (Num b) = Inr (Num (a - b))"
| "py_sub L a b = foreign_ten (t_sub L a b)"

fun py_mul :: "'t tensor_lib \<Rightarrow> 't pyval \<Rightarrow> 't pyval \<Rightarrow> 't pyval result" where
  "py_mul L (Num a) (Num b) = Inr (Num (a * b))"
| "py_mul L a b = foreign_ten (t_mul L a b)"

text \<open>The method calls \<open>v.mean()\<close> and \<open>v.sum(d)\<close>: a float has neither method.\<close>

fun py_mean :: "'t tensor_lib \<Rightarrow> 't pyval \<Rightarrow> 't pyval result" where
  "py_mean L (Num a) = Inl (AttributeError Float ''mean'')"
| "py_mean L (Ten t) = foreign_ten (t_mean L t)"

fun py_sum :: "'t tensor_lib \<Rightarrow> 't pyval \<Rightarrow> int \<Rightarrow> 't pyval result" where
  "py_sum L (Num a) d = Inl (AttributeError Float ''sum'')"
| "py_sum L (Ten t) d = foreign_ten (t_sum L t d)"

text \<open>
  \<open>softmax(v, d)\<close> of \<open>torch.nn.functional\<close>, whose argument may be \<open>None\<close> in the
  source: it works on tensors only.
\<close>

fun softmax :: "'t tensor_lib \<Rightarrow> 't pyval option \<Rightarrow> int \<Rightarrow> 't pyval result" where
  "softmax L None d = Inl (NotATensor NoneType ''softmax'')"
| "softmax L (Some (Num a)) d = Inl (NotATensor Float ''softmax'')"
| "softmax L (Some (Ten t)) d = foreign_ten (t_softmax L t d)"

text \<open>\<open>isinstance(v, Number)\<close>; \<open>None\<close> is not a number.\<close>

fun is_number :: "'t pyval option \<Rightarrow> bool" where
  "is_number (Some (Num a)) = True"
| "is_number _ = False"

subsection \<open>Traces, as a parameter\<close>

text \<open>
  Modelled from the spec: the class \<open>Trace\<close> (probtorch/stochastic.py) is not among the
  sources. The spec describes it as a set of named random variables, each sampled or
  conditioned, with membership and iteration over the names and a method for the joint
  log-density of a named subset. The record holds what the module asks of a trace: the
  names of its conditioned nodes (\<open>q.conditioned()\<close>), the names of its sampled nodes
  (\<open>q.sampled()\<close>), membership of a name (\<open>n in q\<close>) and the joint log-density of a list
  of names (\<open>q.log_joint(sample_dim, batch_dim, nodes)\<close>), which returns a float or a
  tensor, or raises. The dimensions are \<open>int\<close> or \<open>None\<close>.
\<close>

record 't trace =
  conditioned :: "string list"
  sampled :: "string list"
  contains :: "string \<Rightarrow> bool"
  log_joint :: "int option \<Rightarrow> int option \<Rightarrow> string list \<Rightarrow> ext_error + 't pyval"

subsection \<open>The four objectives\<close>

text \<open>Lines 85 to 96. After line 91 \<open>log_weights\<close> is a value, so it is bound as one.\<close>

definition log_like ::
  "'t tensor_lib \<Rightarrow> 't trace \<Rightarrow> 't trace \<Rightarrow> int option \<Rightarrow> int option \<Rightarrow> 't pyval option
   \<Rightarrow> 't pyval result" where
  "log_like L q p sample_dim batch_dim log_weights =
     (let x = filter (\<lambda>n. \<not> contains q n) (conditioned p) in
      and_then (foreign (log_joint p sample_dim batch_dim x)) (\<lambda>log_px.
      if sample_dim = None then py_mean L log_px
      else
        and_then (case log_weights of
                    None \<Rightarrow> foreign (log_joint q sample_dim batch_dim (conditioned q))
                  | Some w \<Rightarrow> Inr w) (\<lambda>log_weights.
        if is_number (Some log_weights) then py_mean L log_px
        else
          and_then (softmax L (Some log_weights) 0) (\<lambda>weights.
          and_then (py_mul L weights log_px) (\<lambda>weighted.
          and_then (py_sum L weighted 0) (\<lambda>summed.
          py_mean L summed))))))"

text \<open>Lines 141 to 150: the integrand \<open>log_qp\<close>.\<close>

definition kl_integrand ::
  "'t tensor_lib \<Rightarrow> 't trace \<Rightarrow> 't trace \<Rightarrow> int option \<Rightarrow> int option \<Rightarrow> 't pyval option
   \<Rightarrow> 't pyval result" where
  "kl_integrand L q p sample_dim batch_dim log_weights =
     (let y = conditioned q;
          z = filter (\<lambda>n. contains p n) (sampled q) in
      and_then (case log_weights of
                  None \<Rightarrow> foreign (log_joint q sample_dim batch_dim y)
                | Some w \<Rightarrow> Inr w) (\<lambda>log_qy.
      and_then (foreign (log_joint p sample_dim batch_dim y)) (\<lambda>log_py.
      and_then (foreign (log_joint p sample_dim batch_dim z)) (\<lambda>log_pz.
      and_then (foreign (log_joint q sample_dim batch_dim z)) (\<lambda>log_qz.
      and_then (py_add L log_qy log_qz) (\<lambda>s1.
      and_then (py_sub L s1 log_py) (\<lambda>s2.
      py_sub L s2 log_pz)))))))"

text \<open>
  Lines 141 to 158. Line 143 binds \<open>log_qy\<close>, not \<open>log_weights\<close>: lines 154 and 157 see
  the argument as the caller gave it.
\<close>

definition kl ::
  "'t tensor_lib \<Rightarrow> 't trace \<Rightarrow> 't trace \<Rightarrow> int option \<Rightarrow> int option \<Rightarrow> 't pyval option
   \<Rightarrow> 't pyval result" where
  "kl L q p sample_dim batch_dim log_weights =
     and_then (kl_integrand L q p sample_dim batch_dim log_weights) (\<lambda>log_qp.
     if sample_dim = None then py_mean L log_qp
     else
       if is_number log_weights then py_mean L log_qp
       else
         and_then (softmax L log_weights 0) (\<lambda>weights.
         and_then (py_mul L weights log_qp) (\<lambda>weighted.
         and_then (py_sum L weighted 0) (\<lambda>summed.
         py_mean L summed))))"

text \<open>Lines 192 to 199.\<close>

definition ml ::
  "'t tensor_lib \<Rightarrow> 't trace \<Rightarrow> int option \<Rightarrow> int option \<Rightarrow> 't pyval option
   \<Rightarrow> 't pyval result" where
  "ml L q sample_dim batch_dim log_weights =
     and_then (case log_weights of
                 None \<Rightarrow> foreign (log_joint q sample_dim batch_dim (conditioned q))
               | Some w \<Rightarrow> Inr w) (\<lambda>log_qy.
     if is_number (Some log_qy) then Inr log_qy
     else py_mean L log_qy)"

text \<open>
  Lines 46 to 49, in Python's order of evaluation: \<open>log_like\<close>, \<open>kl\<close>, the product with
  \<open>beta\<close>, the difference, \<open>ml\<close>, the product with \<open>beta + alpha\<close>, the sum.
\<close>

definition elbo ::
  "'t tensor_lib \<Rightarrow> 't trace \<Rightarrow> 't trace \<Rightarrow> int option \<Rightarrow> int option \<Rightarrow> real \<Rightarrow> real
   \<Rightarrow> 't pyval result" where
  "elbo L q p sample_dim batch_dim alpha beta =
     and_then (foreign (log_joint q sample_dim batch_dim (conditioned q))) (\<lambda>log_weights.
     and_then (log_like L q p sample_dim batch_dim (Some log_weights)) (\<lambda>ll.
     and_then (kl L q p sample_dim batch_dim (Some log_weights)) (\<lambda>k.
     and_then (py_mul L (Num beta) k) (\<lambda>bk.
     and_then (py_sub L ll bk) (\<lambda>d.
     and_then (ml L q sample_dim batch_dim (Some log_weights)) (\<lambda>m.
     and_then (py_mul L (Num (beta + alpha)) m) (\<lambda>am.
     py_add L d am)))))))"

subsection \<open>The formulas of the specification\<close>

text \<open>
  The log-weights a function works with: those the caller supplied, or else the joint
  log-density of \<open>q\<close> over its conditioned names.
\<close>

definition supplied_or_derived ::
  "'t trace \<Rightarrow> int option \<Rightarrow> int option \<Rightarrow> 't pyval option \<Rightarrow> 't pyval result" where
  "supplied_or_derived q sample_dim batch_dim log_weights =
     (case log_weights of
        None \<Rightarrow> foreign (log_joint q sample_dim batch_dim (conditioned q))
      | Some w \<Rightarrow> Inr w)"

text \<open>
  The softmax-weighted mean: the log-weights are normalised by softmax along dimension 0,
  the term is multiplied by the weights, summed along dimension 0 (the samples), and the
  mean of what is left (the batch) is taken.
\<close>

definition weighted_mean :: "'t tensor_lib \<Rightarrow> 't \<Rightarrow> 't pyval \<Rightarrow> 't pyval result" where
  "weighted_mean L log_weights term =
     and_then (foreign_ten (t_softmax L log_weights 0)) (\<lambda>weights.
     and_then (py_mul L weights term) (\<lambda>weighted.
     and_then (py_sum L weighted 0) (\<lambda>summed.
     py_mean L summed)))"

text \<open>
  Sum, difference and scaling of two outcomes, the left one evaluated first; an exception
  of an operand is the exception of the whole.
\<close>

definition plus_r ::
  "'t tensor_lib \<Rightarrow> 't pyval result \<Rightarrow> 't pyval result \<Rightarrow> 't pyval result" where
  "plus_r L x y = and_then x (\<lambda>a. and_then y (\<lambda>b. py_add L a b))"

definition minus_r ::
  "'t tensor_lib \<Rightarrow> 't pyval result \<Rightarrow> 't pyval result \<Rightarrow> 't pyval result" where
  "minus_r L x y = and_then x (\<lambda>a. and_then y (\<lambda>b. py_sub L a b))"

definition scaled_r :: "'t tensor_lib \<Rightarrow> real \<Rightarrow> 't pyval result \<Rightarrow> 't pyval result" where
  "scaled_r L c y = and_then y (\<lambda>b. py_mul L (Num c) b)"

text \<open>
  \<open>kl\<close> as the specification words it: the integrand of the source, reduced by the policy
  of \<open>log_like\<close>, where missing log-weights are derived from \<open>q\<close> before they are used.
\<close>

definition kl_specified ::
  "'t tensor_lib \<Rightarrow> 't trace \<Rightarrow> 't trace \<Rightarrow> int option \<Rightarrow> int option \<Rightarrow> 't pyval option
   \<Rightarrow> 't pyval result" where
  "kl_specified L q p sample_dim batch_dim log_weights =
     and_then (kl_integrand L q p sample_dim batch_dim log_weights) (\<lambda>log_qp.
     if sample_dim = None then py_mean L log_qp
     else
       and_then (supplied_or_derived q sample_dim batch_dim log_weights) (\<lambda>w.
       case w of
         Num c \<Rightarrow> py_mean L log_qp
       | Ten t \<Rightarrow> weighted_mean L t log_qp))"

subsection \<open>Negation\<close>

text \<open>
  Python's unary minus on a value, for a tensor library whose negation of a tensor is \<open>N\<close>;
  on the outcome of a library call and on the outcome of an objective, where an exception
  stays what it is.
\<close>

fun neg_val :: "('t \<Rightarrow> 't) \<Rightarrow> 't pyval \<Rightarrow> 't pyval" where
  "neg_val N (Num a) = Num (- a)"
| "neg_val N (Ten t) = Ten (N t)"

definition lift_neg :: "('t \<Rightarrow> 't) \<Rightarrow> ext_error + 't \<Rightarrow> ext_error + 't" where
  "lift_neg N r = (case r of Inl e \<Rightarrow> Inl e | Inr t \<Rightarrow> Inr (N t))"

definition negated_by :: "('t \<Rightarrow> 't) \<Rightarrow> 't pyval result \<Rightarrow> 't pyval result" where
  "negated_by N r = (case r of Inl e \<Rightarrow> Inl e | Inr v \<Rightarrow> Inr (neg_val N v))"

subsection \<open>A tensor library with exact arithmetic\<close>

text \<open>
  An instance of the tensor library, for evaluating the objectives on concrete traces:
  tensors of rank 0 and rank 1 over the reals. Binary operators work elementwise; a float,
  a rank 0 tensor and a vector of length 1 are broadcast. Sums and softmax accept the
  dimensions 0 and -1 only. The mean of an empty vector, NaN in torch, is an exception
  here, as the reals have no NaN.
\<close>

datatype tensor = Scalar real | Vector "real list"

fun broadcast :: "(real \<Rightarrow> real \<Rightarrow> real) \<Rightarrow> tensor \<Rightarrow> tensor \<Rightarrow> ext_error + tensor" where
  "broadcast f (Scalar a) (Scalar b) = Inr (Scalar (f a b))"
| "broadcast f (Scalar a) (Vector ys) = Inr (Vector (map (f a) ys))"
| "broadcast f (Vector xs) (Scalar b) = Inr (Vector (map (\<lambda>x. f x b) xs))"
| "broadcast f (Vector xs) (Vector ys) =
     (if length xs = length ys then Inr (Vector (map2 f xs ys))
      else if length xs = 1 then Inr (Vector (map (f (hd xs)) ys))
      else if length ys = 1 then Inr (Vector (map (\<lambda>x. f x (hd ys)) xs))
      else Inl ''The size of tensor a must match the size of tensor b'')"

fun as_tensor :: "tensor pyval \<Rightarrow> tensor" where
  "as_tensor (Num a) = Scalar a"
| "as_tensor (Ten t) = t"

definition elementwise ::
  "(real \<Rightarrow> real \<Rightarrow> real) \<Rightarrow> tensor pyval \<Rightarrow> tensor pyval \<Rightarrow> ext_error + tensor" where
  "elementwise f a b = broadcast f (as_tensor a) (as_tensor b)"

fun mean_t :: "tensor \<Rightarrow> ext_error + tensor" where
  "mean_t (Scalar a) = Inr (Scalar a)"
| "mean_t (Vector xs) =
     (if xs = [] then Inl ''nan'' else Inr (Scalar (sum_list xs / real (length xs))))"

fun sum_t :: "tensor \<Rightarrow> int \<Rightarrow> ext_error + tensor" where
  "sum_t (Scalar a) d =
     (if d = 0 \<or> d = -1 then Inr (Scalar a) else Inl ''Dimension out of range'')"
| "sum_t (Vector xs) d =
     (if d = 0 \<or> d = -1 then Inr (Scalar (sum_list xs)) else Inl ''Dimension out of range'')"

fun softmax_t :: "tensor \<Rightarrow> int \<Rightarrow> ext_error + tensor" where
  "softmax_t (Scalar a) d =
     (if d = 0 \<or> d = -1 then Inr (Scalar (exp a / exp a)) else Inl ''Dimension out of range'')"
| "softmax_t (Vector xs) d =
     (if d = 0 \<or> d = -1 then Inr (Vector (map (\<lambda>x. exp x / sum_list (map exp xs)) xs))
      else Inl ''Dimension out of range'')"

definition exact_lib :: "tensor tensor_lib" where
  "exact_lib = \<lparr>t_add = elementwise (+), t_sub = elementwise (-), t_mul = elementwise (*),
                t_mean = mean_t, t_sum = sum_t, t_softmax = softmax_t\<rparr>"

text \<open>Negation of a tensor, entry by entry.\<close>

fun neg_t :: "tensor \<Rightarrow> tensor" where
  "neg_t (Scalar a) = Scalar (- a)"
| "neg_t (Vector xs) = Vector (map uminus xs)"

text \<open>Python's unary minus on a value, and on the outcome of a call.\<close>

fun py_neg :: "tensor pyval \<Rightarrow> tensor pyval" where
  "py_neg (Num a) = Num (- a)"
| "py_neg (Ten (Scalar a)) = Ten (Scalar (- a))"
| "py_neg (Ten (Vector xs)) = Ten (Vector (map uminus xs))"

definition negated :: "tensor pyval result \<Rightarrow> tensor pyval result" where
  "negated r = (case r of Inl e \<Rightarrow> Inl e | Inr v \<Rightarrow> Inr (py_neg v))"

subsection \<open>Example traces\<close>

text \<open>
  A trace over two samples, given by the names of its conditioned and sampled nodes and a
  table of the log-density of each node at each sample. Its joint log-density of a list
  of names is the sum of the rows of the names it holds, a vector of two entries, whatever
  the dimensions asked for.
\<close>

definition node_sum ::
  "(string \<times> real list) list \<Rightarrow> real list \<Rightarrow> string list \<Rightarrow> real list" where
  "node_sum tab zero ns =
     foldl (\<lambda>acc n. case map_of tab n of None \<Rightarrow> acc | Some xs \<Rightarrow> map2 (+) acc xs) zero ns"

definition example_trace ::
  "string list \<Rightarrow> string list \<Rightarrow> (string \<times> real list) list \<Rightarrow> tensor trace" where
  "example_trace cs ss tab =
     \<lparr>conditioned = cs, sampled = ss,
      contains = (\<lambda>n. n \<in> set (cs @ ss)),
      log_joint = (\<lambda>sample_dim batch_dim ns. Inr (Ten (Vector (node_sum tab [0, 0] ns))))\<rparr>"

text \<open>
  An encoder with a conditioned label \<open>y\<close> and a sampled code \<open>z\<close>, and a decoder that
  conditions on the data \<open>x\<close> and on both.
\<close>

definition q0 :: "tensor trace" where
  "q0 = example_trace [''y''] [''z''] [(''y'', [1, 2]), (''z'', [3, 5])]"

definition p0 :: "tensor trace" where
  "p0 = example_trace [''x'', ''y'', ''z''] []
          [(''x'', [7, 11]), (''y'', [13, 17]), (''z'', [19, 23])]"

text \<open>The same encoder with log-weights \<open>[0, 0]\<close>, whose softmax is \<open>[1/2, 1/2]\<close>.\<close>

definition q1 :: "tensor trace" where
  "q1 = example_trace [''y''] [''z''] [(''y'', [0, 0]), (''z'', [3, 5])]"

text \<open>A decoder that conditions on \<open>y\<close> and on \<open>z\<close>, the two names of the encoder \<open>q0\<close>.\<close>

definition p3 :: "tensor trace" where
  "p3 = example_trace [''y'', ''z''] [] [(''y'', [13, 17]), (''z'', [19, 23])]"

text \<open>
  A trace without nodes, whose joint log-density of any list of names is the float
  \<open>0.0\<close>.
\<close>

definition float_trace :: "tensor trace" where
  "float_trace = \<lparr>conditioned = [], sampled = [], contains = (\<lambda>n. False),
                  log_joint = (\<lambda>sample_dim batch_dim ns. Inr (Num 0))\<rparr>"

section \<open>Properties\<close>

subsection \<open>Sequencing\<close>

lemma and_then_Inl [simp]: "and_then (Inl e) f = Inl e"
  by (simp add: and_then_def)

lemma and_then_Inr [simp]: "and_then (Inr v) f = f v"
  by (simp add: and_then_def)

lemma and_then_assoc: "and_then (and_then r f) g = and_then r (\<lambda>v. and_then (f v) g)"
  by (cases r) simp_all

lemma and_then_cases:
  "and_then r f = (case r of Inl e \<Rightarrow> Inl e | Inr v \<Rightarrow> f v)"
  by (simp add: and_then_def)

lemma and_then_not_error:
  assumes "r \<noteq> Inl e" and "\<And>v. f v \<noteq> Inl e"
  shows "and_then r f \<noteq> Inl e"
  using assms by (cases r) simp_all

subsection \<open>Operations that never touch softmax\<close>

text \<open>
  Replacing the softmax of the tensor library by any other function leaves an operation
  unchanged exactly when the operation never calls softmax.
\<close>

lemma py_mean_softmax_free [simp]: "py_mean (L\<lparr>t_softmax := f\<rparr>) v = py_mean L v"
  by (cases v) simp_all

lemma py_sum_softmax_free [simp]: "py_sum (L\<lparr>t_softmax := f\<rparr>) v d = py_sum L v d"
  by (cases v) simp_all

lemma py_add_softmax_free [simp]: "py_add (L\<lparr>t_softmax := f\<rparr>) a b = py_add L a b"
  by (cases "(L, a, b)" rule: py_add.cases) simp_all

lemma py_sub_softmax_free [simp]: "py_sub (L\<lparr>t_softmax := f\<rparr>) a b = py_sub L a b"
  by (cases "(L, a, b)" rule: py_sub.cases) simp_all

lemma py_mul_softmax_free [simp]: "py_mul (L\<lparr>t_softmax := f\<rparr>) a b = py_mul L a b"
  by (cases "(L, a, b)" rule: py_mul.cases) simp_all

lemma kl_integrand_softmax_free [simp]:
  "kl_integrand (L\<lparr>t_softmax := f\<rparr>) q p sd bd lw = kl_integrand L q p sd bd lw"
  by (simp add: kl_integrand_def)

lemma ml_softmax_free: "ml (L\<lparr>t_softmax := f\<rparr>) q sd bd lw = ml L q sd bd lw"
  by (simp add: ml_def cong: if_cong)

lemma ml_unfolded:
  "ml L q sd bd lw =
     and_then (supplied_or_derived q sd bd lw)
       (\<lambda>log_qy. case log_qy of Num a \<Rightarrow> Inr (Num a) | Ten t \<Rightarrow> py_mean L (Ten t))"
  unfolding ml_def supplied_or_derived_def
  by (auto simp: and_then_cases split: sum.splits pyval.splits)

subsection \<open>The branches that take the plain mean\<close>

lemma log_like_no_sample_dim:
  "log_like L q p None bd lw =
     and_then (foreign (log_joint p None bd (filter (\<lambda>n. \<not> contains q n) (conditioned p))))
       (py_mean L)"
  by (simp add: log_like_def)

lemma kl_no_sample_dim:
  "kl L q p None bd lw = and_then (kl_integrand L q p None bd lw) (py_mean L)"
  by (simp add: kl_def)

lemma log_like_scalar_weights:
  "log_like L q p (Some s) bd (Some (Num c)) =
     and_then
       (foreign (log_joint p (Some s) bd (filter (\<lambda>n. \<not> contains q n) (conditioned p))))
       (py_mean L)"
  by (simp add: log_like_def)

lemma kl_scalar_weights:
  "kl L q p (Some s) bd (Some (Num c)) =
     and_then (kl_integrand L q p (Some s) bd (Some (Num c))) (py_mean L)"
  by (simp add: kl_def)

subsection \<open>Where the exception of a missing tensor can come from\<close>

lemma foreign_is_tensor [simp]: "foreign r \<noteq> Inl (NotATensor ty a)"
  by (cases r) (simp_all add: foreign_def)

lemma foreign_ten_is_tensor [simp]: "foreign_ten r \<noteq> Inl (NotATensor ty a)"
  by (cases r) (simp_all add: foreign_ten_def)

lemma py_add_is_tensor [simp]: "py_add L a b \<noteq> Inl (NotATensor ty m)"
  by (cases "(L, a, b)" rule: py_add.cases) simp_all

lemma py_sub_is_tensor [simp]: "py_sub L a b \<noteq> Inl (NotATensor ty m)"
  by (cases "(L, a, b)" rule: py_sub.cases) simp_all

lemma py_mul_is_tensor [simp]: "py_mul L a b \<noteq> Inl (NotATensor ty m)"
  by (cases "(L, a, b)" rule: py_mul.cases) simp_all

lemma py_mean_is_tensor [simp]: "py_mean L v \<noteq> Inl (NotATensor ty m)"
  by (cases v) simp_all

lemma py_sum_is_tensor [simp]: "py_sum L v d \<noteq> Inl (NotATensor ty m)"
  by (cases v) simp_all

lemma softmax_some_not_none [simp]: "softmax L (Some w) d \<noteq> Inl (NotATensor NoneType m)"
  by (cases w) simp_all

lemma kl_integrand_is_tensor: "kl_integrand L q p sd bd lw \<noteq> Inl (NotATensor ty m)"
  unfolding kl_integrand_def Let_def
  by (intro and_then_not_error) (simp_all split: option.splits)

lemma log_like_not_none: "log_like L q p sd bd lw \<noteq> Inl (NotATensor NoneType m)"
  unfolding log_like_def Let_def
  by (intro and_then_not_error) (simp_all split: option.splits add: and_then_not_error)

lemma kl_some_not_none: "kl L q p sd bd (Some w) \<noteq> Inl (NotATensor NoneType m)"
  unfolding kl_def
  by (intro and_then_not_error) (simp_all add: kl_integrand_is_tensor and_then_not_error)

lemma ml_not_none: "ml L q sd bd lw \<noteq> Inl (NotATensor ty m)"
  unfolding ml_def
  by (intro and_then_not_error) (simp_all split: option.splits)

subsection \<open>The examples, evaluated\<close>

lemmas example_defs =
  exact_lib_def q0_def p0_def q1_def p3_def float_trace_def example_trace_def node_sum_def
  elementwise_def foreign_def foreign_ten_def

lemma elbo_example:
  "elbo exact_lib q0 p0 None None (1 / 10) 1 = Inr (Ten (Scalar (823 / 20)))"
  by (simp add: elbo_def log_like_def kl_def kl_integrand_def ml_def example_defs)

lemma elbo_example_weighted:
  "elbo exact_lib q1 p0 (Some 0) None (1 / 10) 1 = Inr (Ten (Scalar 41))"
  by (simp add: elbo_def log_like_def kl_def kl_integrand_def ml_def example_defs)

subsection \<open>\<open>kl\<close> against its specification\<close>

text \<open>
  With a sample dimension and without log-weights, \<open>kl\<close> returns no value for any traces
  and any tensor library: once the integrand is there, line 157 hands \<open>None\<close> to softmax.
\<close>

lemma kl_without_weights:
  "kl L q p (Some s) bd None =
     and_then (kl_integrand L q p (Some s) bd None)
       (\<lambda>log_qp. Inl (NotATensor NoneType ''softmax''))"
  by (simp add: kl_def)

text \<open>Everywhere else \<open>kl\<close> is what the specification says.\<close>

lemma kl_specified_with_weights: "kl L q p sd bd (Some w) = kl_specified L q p sd bd (Some w)"
  by (cases w; cases sd)
    (simp_all add: kl_def kl_specified_def supplied_or_derived_def weighted_mean_def)

lemma kl_specified_no_sample_dim: "kl L q p None bd lw = kl_specified L q p None bd lw"
  by (simp add: kl_def kl_specified_def)

subsection \<open>Swapping the traces of \<open>kl\<close>\<close>

text \<open>
  Lines 151 to 158 of \<open>kl\<close> are odd in the integrand, in every branch: when the product, the
  sum and the mean of the tensor library commute with negation, the negated integrand
  gives the negated result, and an exception stays the same exception.
\<close>

lemma negated_by_Inl [simp]: "negated_by N (Inl e) = Inl e"
  by (simp add: negated_by_def)

lemma negated_by_Inr [simp]: "negated_by N (Inr v) = Inr (neg_val N v)"
  by (simp add: negated_by_def)

lemma foreign_ten_neg: "foreign_ten (lift_neg N r) = negated_by N (foreign_ten r)"
  by (cases r) (simp_all add: foreign_ten_def lift_neg_def)

lemma py_mean_neg:
  assumes "\<And>t. t_mean L (N t) = lift_neg N (t_mean L t)"
  shows "py_mean L (neg_val N v) = negated_by N (py_mean L v)"
  by (cases v) (simp_all add: assms foreign_ten_neg)

lemma py_sum_neg:
  assumes "\<And>t d. t_sum L (N t) d = lift_neg N (t_sum L t d)"
  shows "py_sum L (neg_val N v) d = negated_by N (py_sum L v d)"
  by (cases v) (simp_all add: assms foreign_ten_neg)

lemma py_mul_neg:
  assumes "\<And>w v. t_mul L (Ten w) (neg_val N v) = lift_neg N (t_mul L (Ten w) v)"
  shows "py_mul L (Ten w) (neg_val N v) = negated_by N (py_mul L (Ten w) v)"
  by (cases v) (simp_all add: assms [of w "Num a" for a, simplified] assms [of w "Ten t" for t, simplified] foreign_ten_neg)

lemma and_then_negated:
  assumes "\<And>v. g (neg_val N v) = negated_by N (f v)"
  shows "and_then (negated_by N r) g = negated_by N (and_then r f)"
  by (cases r) (simp_all add: assms)

lemma mean_after_sum_neg:
  assumes "\<And>t. t_mean L (N t) = lift_neg N (t_mean L t)"
    and "\<And>t d. t_sum L (N t) d = lift_neg N (t_sum L t d)"
  shows "and_then (py_sum L (neg_val N v) d) (py_mean L) =
         negated_by N (and_then (py_sum L v d) (py_mean L))"
  unfolding py_sum_neg [of L N, OF assms(2)]
  by (rule and_then_negated) (rule py_mean_neg [OF assms(1)])

lemma weighted_neg:
  assumes "\<And>t. t_mean L (N t) = lift_neg N (t_mean L t)"
    and "\<And>t d. t_sum L (N t) d = lift_neg N (t_sum L t d)"
    and "\<And>w v. t_mul L (Ten w) (neg_val N v) = lift_neg N (t_mul L (Ten w) v)"
  shows "and_then (py_mul L (Ten w) (neg_val N v)) (\<lambda>weighted.
           and_then (py_sum L weighted 0) (\<lambda>summed. py_mean L summed)) =
         negated_by N (and_then (py_mul L (Ten w) v) (\<lambda>weighted.
           and_then (py_sum L weighted 0) (\<lambda>summed. py_mean L summed)))"
  unfolding py_mul_neg [of L N, OF assms(3)]
  by (rule and_then_negated) (rule mean_after_sum_neg [OF assms(1,2)])

lemma softmax_yields_tensor: "softmax L lw d = Inr v \<Longrightarrow> \<exists>w. v = Ten w"
  by (cases "(L, lw, d)" rule: softmax.cases) (auto simp: foreign_ten_def split: sum.splits)

lemma reduction_neg:
  assumes "\<And>t. t_mean L (N t) = lift_neg N (t_mean L t)"
    and "\<And>t d. t_sum L (N t) d = lift_neg N (t_sum L t d)"
    and "\<And>w v. t_mul L (Ten w) (neg_val N v) = lift_neg N (t_mul L (Ten w) v)"
  shows "and_then (softmax L lw 0) (\<lambda>weights.
           and_then (py_mul L weights (neg_val N v)) (\<lambda>weighted.
           and_then (py_sum L weighted 0) (\<lambda>summed. py_mean L summed))) =
         negated_by N (and_then (softmax L lw 0) (\<lambda>weights.
           and_then (py_mul L weights v) (\<lambda>weighted.
           and_then (py_sum L weighted 0) (\<lambda>summed. py_mean L summed))))"
proof (cases "softmax L lw 0")
  case (Inl e)
  then show ?thesis by simp
next
  case (Inr weights)
  then obtain w where "weights = Ten w"
    using softmax_yields_tensor by blast
  with Inr show ?thesis
    using weighted_neg [OF assms, of w v] by (simp del: py_mul.simps)
qed

lemma kl_negates_along_integrand:
  assumes mean: "\<And>t. t_mean L (N t) = lift_neg N (t_mean L t)"
    and sum: "\<And>t d. t_sum L (N t) d = lift_neg N (t_sum L t d)"
    and mul: "\<And>w v. t_mul L (Ten w) (neg_val N v) = lift_neg N (t_mul L (Ten w) v)"
    and original: "kl_integrand L q p sd bd lw = Inr v"
    and swapped: "kl_integrand L p' q' sd bd lw = Inr (neg_val N v)"
  shows "kl L p' q' sd bd lw = negated_by N (kl L q p sd bd lw)"
proof (cases sd)
  case None
  then show ?thesis
    unfolding kl_def swapped original by (simp add: py_mean_neg [OF mean])
next
  case (Some s)
  show ?thesis
  proof (cases "is_number lw")
    case True
    with Some show ?thesis
      unfolding kl_def swapped original by (simp add: py_mean_neg [OF mean])
  next
    case False
    with Some show ?thesis
      unfolding kl_def swapped original by (simp add: reduction_neg [OF mean sum mul])
  qed
qed

text \<open>
  The exact library has these three laws, so there a swap of the traces that negates the
  integrand negates \<open>kl\<close>, for every sample dimension and all log-weights.
\<close>

lemma negated_by_neg_t: "negated_by neg_t r = negated r"
proof (cases r)
  case (Inl e)
  then show ?thesis by (simp add: negated_def)
next
  case (Inr v)
  then show ?thesis
    by (cases v rule: py_neg.cases) (simp_all add: negated_def)
qed

lemma sum_list_uminus_real: "sum_list (map uminus xs) = - sum_list (xs :: real list)"
  by (induction xs) simp_all

lemma mean_t_neg: "mean_t (neg_t t) = lift_neg neg_t (mean_t t)"
  by (cases t) (simp_all add: lift_neg_def sum_list_uminus_real)

lemma sum_t_neg: "sum_t (neg_t t) d = lift_neg neg_t (sum_t t d)"
  by (cases t) (simp_all add: lift_neg_def sum_list_uminus_real)

lemma map2_mult_uminus:
  "map2 (*) xs (map uminus ys) = map uminus (map2 (*) xs (ys :: real list))"
  by (induction xs arbitrary: ys) (auto simp: zip_Cons1 split: list.splits)

lemma hd_map_uminus: "length ys = 1 \<Longrightarrow> hd (map uminus ys) = - hd (ys :: real list)"
  by (cases ys) simp_all

lemma broadcast_mult_neg:
  "broadcast (*) w (neg_t u) = lift_neg neg_t (broadcast (*) w u)"
  by (cases w; cases u)
    (auto simp: lift_neg_def map2_mult_uminus hd_map_uminus comp_def)

lemma as_tensor_neg: "as_tensor (neg_val neg_t v) = neg_t (as_tensor v)"
  by (cases v) simp_all

lemma elementwise_mult_neg:
  "elementwise (*) (Ten w) (neg_val neg_t v) = lift_neg neg_t (elementwise (*) (Ten w) v)"
  by (simp add: elementwise_def as_tensor_neg broadcast_mult_neg)

lemma exact_lib_mean_neg: "t_mean exact_lib (neg_t t) = lift_neg neg_t (t_mean exact_lib t)"
  by (simp add: exact_lib_def mean_t_neg)

lemma exact_lib_sum_neg: "t_sum exact_lib (neg_t t) d = lift_neg neg_t (t_sum exact_lib t d)"
  by (simp add: exact_lib_def sum_t_neg)

lemma exact_lib_mul_neg:
  "t_mul exact_lib (Ten w) (neg_val neg_t v) = lift_neg neg_t (t_mul exact_lib (Ten w) v)"
  by (simp add: exact_lib_def elementwise_mult_neg)

lemma kl_swap_exact:
  assumes "kl_integrand exact_lib p q sd bd lw = negated (kl_integrand exact_lib q p sd bd lw)"
  shows "kl exact_lib p q sd bd lw = negated (kl exact_lib q p sd bd lw)"
proof (cases "kl_integrand exact_lib q p sd bd lw")
  case (Inl e)
  with assms show ?thesis
    by (simp add: kl_def negated_def)
next
  case (Inr v)
  with assms have "kl_integrand exact_lib p q sd bd lw = Inr (neg_val neg_t v)"
    by (simp flip: negated_by_neg_t)
  with Inr have "kl exact_lib p q sd bd lw = negated_by neg_t (kl exact_lib q p sd bd lw)"
    by (rule kl_negates_along_integrand
          [OF exact_lib_mean_neg exact_lib_sum_neg exact_lib_mul_neg])
  then show ?thesis
    by (simp add: negated_by_neg_t)
qed

section \<open>The claims\<close>

text \<open>
  Claim C1. For all traces \<open>q\<close> and \<open>p\<close>, all dimensions and all coefficients, \<open>elbo\<close> is
  \<open>log_like - beta * kl + (beta + alpha) * ml\<close>, where the three terms receive the same
  log-weights \<open>w\<close>, the joint log-density of \<open>q\<close> over its conditioned names. When that
  log-density raises, so does \<open>elbo\<close>.
\<close>

theorem elbo_combines_shared_log_weights:
  "elbo L q p sd bd alpha beta =
     (case log_joint q sd bd (conditioned q) of
        Inl e \<Rightarrow> Inl (Ext e)
      | Inr w \<Rightarrow>
          plus_r L
            (minus_r L (log_like L q p sd bd (Some w))
                       (scaled_r L beta (kl L q p sd bd (Some w))))
            (scaled_r L (beta + alpha) (ml L q sd bd (Some w))))"
  by (simp add: elbo_def plus_r_def minus_r_def scaled_r_def foreign_def and_then_cases
           split: sum.splits)

text \<open>
  Claim C2. The claim: with a sample dimension and without log-weights, \<open>kl\<close> derives the
  log-weights from \<open>q\<close> and returns the softmax-weighted mean of its integrand, as
  \<open>log_like\<close> does for \<open>log p(x)\<close>. On the encoder \<open>q1\<close> and the decoder \<open>p0\<close>, with sample
  dimension 0, the source raises the exception of \<open>softmax(None, 0)\<close>, where the
  specified function returns -32 and \<open>log_like\<close> returns 9.
\<close>

theorem kl_raises_without_log_weights:
  "kl exact_lib q1 p0 (Some 0) None None = Inl (NotATensor NoneType ''softmax'')
   \<and> kl_specified exact_lib q1 p0 (Some 0) None None = Inr (Ten (Scalar (- 32)))
   \<and> log_like exact_lib q1 p0 (Some 0) None None = Inr (Ten (Scalar 9))"
  by (simp add: kl_def kl_specified_def kl_integrand_def log_like_def supplied_or_derived_def
        weighted_mean_def example_defs)

text \<open>
  Claim C3. The claim: without a sample dimension, \<open>log_like\<close>, \<open>kl\<close> and \<open>ml\<close> return the
  plain mean of their term for every trace. On a trace whose joint log-density is a float,
  \<open>log_like\<close> and \<open>kl\<close> return nothing: lines 88 and 152 call \<open>mean\<close> on the float, which has
  no such method. Only \<open>ml\<close> tests for a float first, and returns it.
\<close>

theorem no_sample_dim_float_term_raises:
  "log_like exact_lib q0 float_trace None None None = Inl (AttributeError Float ''mean'')
   \<and> kl exact_lib float_trace float_trace None None None = Inl (AttributeError Float ''mean'')
   \<and> ml exact_lib float_trace None None None = Inr (Num 0)"
  by (simp add: log_like_def kl_def kl_integrand_def ml_def example_defs)

text \<open>
  Claim C3, amended. Without a sample dimension, whenever the term is a tensor, each of
  the three functions returns the mean of that tensor: \<open>log_like\<close> of \<open>log p(x)\<close>, \<open>kl\<close> of
  its integrand, \<open>ml\<close> of \<open>log_qy\<close> (the supplied log-weights, or else the log-density of \<open>q\<close>
  over its conditioned names); a float \<open>log_qy\<close> is returned by \<open>ml\<close> as it is. None of the
  three calls softmax: whatever function stands in its place, the results are the same.
\<close>

theorem no_sample_dim_plain_mean:
  "(log_joint p None bd (filter (\<lambda>n. \<not> contains q n) (conditioned p)) = Inr (Ten tx)
      \<and> t_mean L tx = Inr mx
      \<longrightarrow> log_like L q p None bd lw = Inr (Ten mx))
   \<and> (kl_integrand L q p None bd lw = Inr (Ten tk) \<and> t_mean L tk = Inr mk
      \<longrightarrow> kl L q p None bd lw = Inr (Ten mk))
   \<and> (supplied_or_derived q None bd lw = Inr (Ten ty) \<and> t_mean L ty = Inr my
      \<longrightarrow> ml L q None bd lw = Inr (Ten my))
   \<and> (supplied_or_derived q None bd lw' = Inr (Num a) \<longrightarrow> ml L q None bd lw' = Inr (Num a))
   \<and> log_like (L\<lparr>t_softmax := f\<rparr>) q p None bd lw = log_like L q p None bd lw
   \<and> kl (L\<lparr>t_softmax := f\<rparr>) q p None bd lw = kl L q p None bd lw
   \<and> ml (L\<lparr>t_softmax := f\<rparr>) q None bd lw = ml L q None bd lw"
proof -
  have returned:
    "(log_joint p None bd (filter (\<lambda>n. \<not> contains q n) (conditioned p)) = Inr (Ten tx)
        \<and> t_mean L tx = Inr mx
        \<longrightarrow> log_like L q p None bd lw = Inr (Ten mx))
     \<and> (kl_integrand L q p None bd lw = Inr (Ten tk) \<and> t_mean L tk = Inr mk
        \<longrightarrow> kl L q p None bd lw = Inr (Ten mk))
     \<and> (supplied_or_derived q None bd lw = Inr (Ten ty) \<and> t_mean L ty = Inr my
        \<longrightarrow> ml L q None bd lw = Inr (Ten my))
     \<and> (supplied_or_derived q None bd lw' = Inr (Num a) \<longrightarrow> ml L q None bd lw' = Inr (Num a))"
    by (simp add: log_like_no_sample_dim kl_no_sample_dim ml_unfolded foreign_def
          foreign_ten_def)
  have untouched:
    "log_like (L\<lparr>t_softmax := f\<rparr>) q p None bd lw = log_like L q p None bd lw
     \<and> kl (L\<lparr>t_softmax := f\<rparr>) q p None bd lw = kl L q p None bd lw
     \<and> ml (L\<lparr>t_softmax := f\<rparr>) q None bd lw = ml L q None bd lw"
    by (simp add: ml_softmax_free) (simp add: log_like_def kl_def)
  from returned untouched show ?thesis
    by blast
qed

theorem no_sample_dim_plain_mean_witness:
  "log_joint p0 None None (filter (\<lambda>n. \<not> contains q0 n) (conditioned p0)) =
     Inr (Ten (Vector [7, 11]))
   \<and> t_mean exact_lib (Vector [7, 11]) = Inr (Scalar 9)
   \<and> log_like exact_lib q0 p0 None None None = Inr (Ten (Scalar 9))
   \<and> kl_integrand exact_lib q0 p0 None None None = Inr (Ten (Vector [- 28, - 33]))
   \<and> t_mean exact_lib (Vector [- 28, - 33]) = Inr (Scalar (- (61 / 2)))
   \<and> kl exact_lib q0 p0 None None None = Inr (Ten (Scalar (- (61 / 2))))
   \<and> supplied_or_derived q0 None None None = Inr (Ten (Vector [1, 2]))
   \<and> t_mean exact_lib (Vector [1, 2]) = Inr (Scalar (3 / 2))
   \<and> ml exact_lib q0 None None None = Inr (Ten (Scalar (3 / 2)))
   \<and> supplied_or_derived q0 None None (Some (Num 3)) = Inr (Num 3)
   \<and> ml exact_lib q0 None None (Some (Num 3)) = Inr (Num 3)"
proof -
  have h1: "log_joint p0 None None (filter (\<lambda>n. \<not> contains q0 n) (conditioned p0)) =
            Inr (Ten (Vector [7, 11]))"
    by (simp add: example_defs)
  have mx: "t_mean exact_lib (Vector [7, 11]) = Inr (Scalar 9)"
    by (simp add: exact_lib_def)
  have h2: "kl_integrand exact_lib q0 p0 None None None = Inr (Ten (Vector [- 28, - 33]))"
    by (simp add: kl_integrand_def example_defs)
  have mk: "t_mean exact_lib (Vector [- 28, - 33]) = Inr (Scalar (- (61 / 2)))"
    by (simp add: exact_lib_def)
  have h3: "supplied_or_derived q0 None None None = Inr (Ten (Vector [1, 2]))"
    by (simp add: supplied_or_derived_def example_defs)
  have my: "t_mean exact_lib (Vector [1, 2]) = Inr (Scalar (3 / 2))"
    by (simp add: exact_lib_def)
  have h4: "supplied_or_derived q0 None None (Some (Num 3)) = Inr (Num 3)"
    by (simp add: supplied_or_derived_def)
  show ?thesis
    using h1 mx h2 mk h3 my h4
      no_sample_dim_plain_mean [where L = exact_lib and q = q0 and p = p0 and bd = None and lw = None
            and tx = "Vector [7, 11]" and mx = "Scalar 9"
            and tk = "Vector [- 28, - 33]" and mk = "Scalar (- (61 / 2))"
            and ty = "Vector [1, 2]" and my = "Scalar (3 / 2)"
            and lw' = "Some (Num 3)" and a = 3]
    by simp
qed

text \<open>
  Claim C4. The claim: with a sample dimension and a float as log-weights, \<open>log_like\<close> and
  \<open>kl\<close> return the plain mean of their term for every pair of traces. On a trace whose
  joint log-density is a float they return nothing: lines 93 and 155 call \<open>mean\<close> on the
  float.
\<close>

theorem scalar_log_weights_float_term_raises:
  "log_like exact_lib q0 float_trace (Some 0) None (Some (Num 1)) =
     Inl (AttributeError Float ''mean'')
   \<and> kl exact_lib float_trace float_trace (Some 0) None (Some (Num 1)) =
     Inl (AttributeError Float ''mean'')"
  by (simp add: log_like_def kl_def kl_integrand_def example_defs)

text \<open>
  Claim C4, amended. With a sample dimension and a float as log-weights, whenever the
  term is a tensor, \<open>log_like\<close> returns the mean of \<open>log p(x)\<close> and \<open>kl\<close> the mean of its
  integrand, and neither calls softmax.
\<close>

theorem scalar_log_weights_plain_mean:
  "(log_joint p (Some s) bd (filter (\<lambda>n. \<not> contains q n) (conditioned p)) = Inr (Ten tx)
      \<and> t_mean L tx = Inr mx
      \<longrightarrow> log_like L q p (Some s) bd (Some (Num c)) = Inr (Ten mx))
   \<and> (kl_integrand L q p (Some s) bd (Some (Num c)) = Inr (Ten tk) \<and> t_mean L tk = Inr mk
      \<longrightarrow> kl L q p (Some s) bd (Some (Num c)) = Inr (Ten mk))
   \<and> log_like (L\<lparr>t_softmax := f\<rparr>) q p (Some s) bd (Some (Num c)) =
     log_like L q p (Some s) bd (Some (Num c))
   \<and> kl (L\<lparr>t_softmax := f\<rparr>) q p (Some s) bd (Some (Num c)) =
     kl L q p (Some s) bd (Some (Num c))"
proof -
  have returned:
    "(log_joint p (Some s) bd (filter (\<lambda>n. \<not> contains q n) (conditioned p)) = Inr (Ten tx)
        \<and> t_mean L tx = Inr mx
        \<longrightarrow> log_like L q p (Some s) bd (Some (Num c)) = Inr (Ten mx))
     \<and> (kl_integrand L q p (Some s) bd (Some (Num c)) = Inr (Ten tk) \<and> t_mean L tk = Inr mk
        \<longrightarrow> kl L q p (Some s) bd (Some (Num c)) = Inr (Ten mk))"
    by (simp add: log_like_scalar_weights kl_scalar_weights foreign_def foreign_ten_def)
  have untouched:
    "log_like (L\<lparr>t_softmax := f\<rparr>) q p (Some s) bd (Some (Num c)) =
       log_like L q p (Some s) bd (Some (Num c))
     \<and> kl (L\<lparr>t_softmax := f\<rparr>) q p (Some s) bd (Some (Num c)) =
       kl L q p (Some s) bd (Some (Num c))"
    by (simp add: log_like_def kl_def)
  from returned untouched show ?thesis
    by blast
qed

theorem scalar_log_weights_plain_mean_witness:
  "log_joint p0 (Some 0) None (filter (\<lambda>n. \<not> contains q0 n) (conditioned p0)) =
     Inr (Ten (Vector [7, 11]))
   \<and> t_mean exact_lib (Vector [7, 11]) = Inr (Scalar 9)
   \<and> log_like exact_lib q0 p0 (Some 0) None (Some (Num 1)) = Inr (Ten (Scalar 9))
   \<and> kl_integrand exact_lib q0 p0 (Some 0) None (Some (Num 1)) =
     Inr (Ten (Vector [- 28, - 34]))
   \<and> t_mean exact_lib (Vector [- 28, - 34]) = Inr (Scalar (- 31))
   \<and> kl exact_lib q0 p0 (Some 0) None (Some (Num 1)) = Inr (Ten (Scalar (- 31)))"
proof -
  have h1: "log_joint p0 (Some 0) None (filter (\<lambda>n. \<not> contains q0 n) (conditioned p0)) =
            Inr (Ten (Vector [7, 11]))"
    by (simp add: example_defs)
  have mx: "t_mean exact_lib (Vector [7, 11]) = Inr (Scalar 9)"
    by (simp add: exact_lib_def)
  have h2: "kl_integrand exact_lib q0 p0 (Some 0) None (Some (Num 1)) =
            Inr (Ten (Vector [- 28, - 34]))"
    by (simp add: kl_integrand_def example_defs)
  have mk: "t_mean exact_lib (Vector [- 28, - 34]) = Inr (Scalar (- 31))"
    by (simp add: exact_lib_def)
  show ?thesis
    using h1 mx h2 mk
      scalar_log_weights_plain_mean [where L = exact_lib and q = q0 and p = p0 and s = 0 and bd = None and c = 1
            and tx = "Vector [7, 11]" and mx = "Scalar 9"
            and tk = "Vector [- 28, - 34]" and mk = "Scalar (- 31)"]
    by simp
qed

text \<open>
  Claim C5. With a sample dimension and log-weights that are a tensor \<open>w\<close> (supplied, or
  derived from \<open>q\<close>), \<open>log_like\<close> takes \<open>log p(x)\<close> as the joint log-density of \<open>p\<close> over the
  names conditioned in \<open>p\<close> and absent from \<open>q\<close>, and returns its softmax-weighted mean:
  softmax of \<open>w\<close> along dimension 0, product with \<open>log p(x)\<close>, sum along dimension 0, mean.
\<close>

theorem log_like_weighted_mean:
  assumes "supplied_or_derived q (Some s) bd lw = Inr (Ten w)"
  shows "log_like L q p (Some s) bd lw =
     and_then
       (foreign (log_joint p (Some s) bd (filter (\<lambda>n. \<not> contains q n) (conditioned p))))
       (\<lambda>log_px. weighted_mean L w log_px)"
  using assms
  by (simp add: log_like_def supplied_or_derived_def weighted_mean_def)

theorem log_like_weighted_mean_witness:
  "supplied_or_derived q1 (Some 0) None None = Inr (Ten (Vector [0, 0]))
   \<and> log_like exact_lib q1 p0 (Some 0) None None = Inr (Ten (Scalar 9))"
proof -
  have h: "supplied_or_derived q1 (Some 0) None None = Inr (Ten (Vector [0, 0]))"
    by (simp add: supplied_or_derived_def example_defs)
  show ?thesis
    using h log_like_weighted_mean [OF h, of exact_lib p0]
    by (simp add: weighted_mean_def example_defs)
qed

text \<open>
  Claim C6. With \<open>y\<close> the conditioned names of \<open>q\<close> and \<open>z\<close> the names sampled in \<open>q\<close> that
  \<open>p\<close> contains, the integrand of \<open>kl\<close> is \<open>log q(y) + log q(z) - log p(y) - log p(z)\<close>,
  added and subtracted from left to right, where the supplied log-weights stand for
  \<open>log q(y)\<close> when there are any. Without a sample dimension \<open>kl\<close> returns the mean of this
  integrand.
\<close>

theorem kl_integrand_formula:
  assumes "supplied_or_derived q sd bd lw = Inr log_qy"
    and "log_joint q sd bd (filter (\<lambda>n. contains p n) (sampled q)) = Inr log_qz"
    and "log_joint p sd bd (conditioned q) = Inr log_py"
    and "log_joint p sd bd (filter (\<lambda>n. contains p n) (sampled q)) = Inr log_pz"
  shows "kl_integrand L q p sd bd lw =
           minus_r L (minus_r L (plus_r L (Inr log_qy) (Inr log_qz)) (Inr log_py)) (Inr log_pz)
         \<and> (sd = None \<longrightarrow>
              kl L q p sd bd lw =
                and_then
                  (minus_r L (minus_r L (plus_r L (Inr log_qy) (Inr log_qz)) (Inr log_py))
                     (Inr log_pz))
                  (py_mean L))
         \<and> supplied_or_derived q sd bd (Some w) = Inr w"
proof -
  have i: "kl_integrand L q p sd bd lw =
           minus_r L (minus_r L (plus_r L (Inr log_qy) (Inr log_qz)) (Inr log_py)) (Inr log_pz)"
    using assms
    by (simp add: kl_integrand_def supplied_or_derived_def minus_r_def plus_r_def foreign_def
          and_then_assoc split: option.splits)
  have k: "kl L q p sd bd lw = and_then (kl_integrand L q p sd bd lw) (py_mean L)"
    if "sd = None"
    using that by (simp add: kl_def)
  show ?thesis
    using k unfolding i by (simp add: supplied_or_derived_def)
qed

theorem kl_integrand_formula_witness:
  "supplied_or_derived q0 None None None = Inr (Ten (Vector [1, 2]))
   \<and> kl_integrand exact_lib q0 p0 None None None = Inr (Ten (Vector [- 28, - 33]))
   \<and> kl exact_lib q0 p0 None None None = Inr (Ten (Scalar (- (61 / 2))))"
proof -
  have h1: "supplied_or_derived q0 None None None = Inr (Ten (Vector [1, 2]))"
    by (simp add: supplied_or_derived_def example_defs)
  have h2: "log_joint q0 None None (filter (\<lambda>n. contains p0 n) (sampled q0)) =
            Inr (Ten (Vector [3, 5]))"
    by (simp add: example_defs)
  have h3: "log_joint p0 None None (conditioned q0) = Inr (Ten (Vector [13, 17]))"
    by (simp add: example_defs)
  have h4: "log_joint p0 None None (filter (\<lambda>n. contains p0 n) (sampled q0)) =
            Inr (Ten (Vector [19, 23]))"
    by (simp add: example_defs)
  show ?thesis
    using h1 kl_integrand_formula [OF h1 h2 h3 h4, of exact_lib]
    by (simp add: minus_r_def plus_r_def example_defs)
qed

text \<open>
  Claim C7. \<open>ml\<close> takes \<open>log_qy\<close> as the supplied log-weights, or else as the joint
  log-density of \<open>q\<close> over its conditioned names; a float is returned unchanged, of a
  tensor the mean is returned. Softmax is never called, and with supplied log-weights the
  dimensions do not matter at all.
\<close>

theorem ml_returns_scalar_or_mean:
  "ml L q sd bd lw =
     and_then (supplied_or_derived q sd bd lw)
       (\<lambda>log_qy. case log_qy of Num a \<Rightarrow> Inr (Num a) | Ten t \<Rightarrow> py_mean L (Ten t))
   \<and> ml (L\<lparr>t_softmax := f\<rparr>) q sd bd lw = ml L q sd bd lw
   \<and> ml L q sd bd (Some w) = ml L q sd' bd' (Some w)"
  using ml_unfolded [of L q sd bd lw]
  by (simp add: ml_softmax_free) (simp add: ml_def)




text \<open>
  Claim C9. \<open>elbo\<close> hands to \<open>log_like\<close>, \<open>kl\<close> and \<open>ml\<close> the log-weights it derived from \<open>q\<close>,
  never \<open>None\<close>. The exception of \<open>softmax(None, 0)\<close>, which line 157 of \<open>kl\<close> raises when
  it hands absent log-weights to softmax, is therefore no outcome of \<open>elbo\<close>, for any
  traces, dimensions, coefficients and tensor library.
\<close>

theorem elbo_never_softmax_of_none:
  "elbo L q p sd bd alpha beta \<noteq> Inl (NotATensor NoneType m)
   \<and> elbo L q p sd bd alpha beta =
     and_then (foreign (log_joint q sd bd (conditioned q))) (\<lambda>w.
       plus_r L
         (minus_r L (log_like L q p sd bd (Some w)) (scaled_r L beta (kl L q p sd bd (Some w))))
         (scaled_r L (beta + alpha) (ml L q sd bd (Some w))))"
proof
  show "elbo L q p sd bd alpha beta \<noteq> Inl (NotATensor NoneType m)"
    unfolding elbo_def
    by (intro and_then_not_error) (simp_all add: log_like_not_none kl_some_not_none ml_not_none)
  show "elbo L q p sd bd alpha beta =
     and_then (foreign (log_joint q sd bd (conditioned q))) (\<lambda>w.
       plus_r L
         (minus_r L (log_like L q p sd bd (Some w)) (scaled_r L beta (kl L q p sd bd (Some w))))
         (scaled_r L (beta + alpha) (ml L q sd bd (Some w))))"
    by (simp add: elbo_def plus_r_def minus_r_def scaled_r_def and_then_cases split: sum.splits)
qed

text \<open>
  Claim C10. Without a sample dimension the result of \<open>log_like\<close> does not depend on the
  log-weights: any two choices give the same outcome.
\<close>

theorem log_like_ignores_log_weights:
  "log_like L q p None bd w1 = log_like L q p None bd w2"
  by (simp add: log_like_def)

end
